theory Spec2Isabelle
  imports Complex_Main
begin

section \<open>Values and errors\<close>

text \<open>
  Python floats are idealised as real numbers. A Python exception is a value of
  \<open>error\<close>. The constructor \<open>NonFinite\<close> is not an exception: it marks a
  division of numpy floats by zero, where numpy goes on with \<open>inf\<close> or \<open>nan\<close>
  and a warning; the real-valued model stops there.
\<close>

datatype error =
  TypeError | ValueError | IndexError | ZeroDivisionError | LinAlgError | NonFinite

type_synonym vec = "real list"
type_synonym array = "vec list"

text \<open>What a numpy expression evaluates to: a float, or a one-dimensional array.\<close>

datatype npval = Scalar real | Array "real list"

fun np_iadd :: "npval \<Rightarrow> real list \<Rightarrow> npval" where
  "np_iadd (Scalar a) v = Array (map (\<lambda>x. a + x) v)"
| "np_iadd (Array w) v = Array (map2 (+) w v)"

fun np_scale :: "real \<Rightarrow> npval \<Rightarrow> npval" where
  "np_scale c (Scalar a) = Scalar (c * a)"
| "np_scale c (Array v) = Array (map (\<lambda>x. c * x) v)"

fun np_shift :: "npval \<Rightarrow> real \<Rightarrow> npval" where
  "np_shift (Scalar a) c = Scalar (a + c)"
| "np_shift (Array v) c = Array (map (\<lambda>x. x + c) v)"

definition np_linalg_norm :: "vec \<Rightarrow> real" where
  "np_linalg_norm v = sqrt (sum_list (map (\<lambda>x. x * x) v))"

section \<open>sysmodule.py: SystemInfo\<close>

record system_info =
  sigma :: real
  cutoff_radius :: real
  epsilon0 :: real
  particle_charges :: "real list"
  char_length :: real
  periods :: real

text \<open>
  \<open>SystemInfo.__init__(self, characteristic_length, sigma, particle_charges, system,
  periods)\<close>: five parameters, none with a default. The last one is an option here: a
  call that does not pass it raises TypeError, as Python does for a missing positional
  argument. The back reference \<open>system\<close> is not stored in the model.
\<close>

definition SystemInfo_init :: "real \<Rightarrow> real \<Rightarrow> real list \<Rightarrow> real option \<Rightarrow> error + system_info" where
  "SystemInfo_init characteristic_length sig charges periods_arg =
     (case periods_arg of
        None \<Rightarrow> Inl TypeError
      | Some n \<Rightarrow>
          Inr \<lparr>sigma = sig, cutoff_radius = sig * 2.5, epsilon0 = 1,
               particle_charges = charges, char_length = characteristic_length,
               periods = n\<rparr>)"

definition volume :: "system_info \<Rightarrow> real" where
  "volume info = char_length info ^ 3"

definition cutoff :: "system_info \<Rightarrow> real" where
  "cutoff info = cutoff_radius info"

section \<open>sysmodule.py: SystemState.energy\<close>

text \<open>
  One summand of the double loop of \<open>energy\<close>:
  \<open>(charges[i]*charges[j]) / (pos[i]-pos[j] + n*L) * erfc((norm(pos[i]-pos[j]) + n*L)/(sqrt(2)*sigma))\<close>.
  \<open>pos[i]-pos[j]\<close> is a row of coordinates, so the quotient is taken coordinate by
  coordinate and the summand is an array. \<open>erfc\<close> is scipy's; it is a parameter.
\<close>

definition short_term :: "(real \<Rightarrow> real) \<Rightarrow> system_info \<Rightarrow> array \<Rightarrow> nat \<Rightarrow> nat \<Rightarrow> error + real list" where
  "short_term erfc info pos i j =
     (if length pos \<le> i \<or> length pos \<le> j then Inl IndexError
      else
        let charges = particle_charges info;
            nL = periods info * char_length info;
            d = map2 (-) (pos ! i) (pos ! j);
            denom = map (\<lambda>x. x + nL) d
        in if 0 \<in> set denom \<or> sqrt 2 * sigma info = 0 then Inl NonFinite
           else Inr (map (\<lambda>x. (charges ! i * charges ! j) / x
                                * erfc ((np_linalg_norm d + nL) / (sqrt 2 * sigma info)))
                         denom))"

fun short_loop :: "(real \<Rightarrow> real) \<Rightarrow> system_info \<Rightarrow> array \<Rightarrow> (nat \<times> nat) list \<Rightarrow> npval \<Rightarrow> error + npval" where
  "short_loop erfc info pos [] shortsum = Inr shortsum"
| "short_loop erfc info pos (ij # rest) shortsum =
     (case short_term erfc info pos (fst ij) (snd ij) of
        Inl e \<Rightarrow> Inl e
      | Inr t \<Rightarrow> short_loop erfc info pos rest (np_iadd shortsum t))"

text \<open>
  \<open>energy\<close>: the loops run over \<open>range(len(charges))\<close> twice, the diagonal
  \<open>i = j\<close> included. The three divisions after the loops are divisions of Python
  floats, which raise ZeroDivisionError.
\<close>

definition energy :: "(real \<Rightarrow> real) \<Rightarrow> system_info \<Rightarrow> array \<Rightarrow> error + npval" where
  "energy erfc info pos =
     (let V = volume info;
          eps = epsilon0 info;
          charges = particle_charges info;
          sig = sigma info;
          m = length charges
      in case short_loop erfc info pos (List.product [0..<m] [0..<m]) (Scalar 0) of
           Inl e \<Rightarrow> Inl e
         | Inr shortsum \<Rightarrow>
             if 8 * pi * eps = 0 then Inl ZeroDivisionError
             else if V * eps = 0 then Inl ZeroDivisionError
             else if 2 * eps * sig * (2 * pi) powr (3 / 2) = 0 then Inl ZeroDivisionError
             else
               let longsum = 0;
                   energy_short = np_scale (1 / (8 * pi * eps)) shortsum;
                   energy_long = 1 / (V * eps) * longsum;
                   energy_self = inverse (2 * eps * sig * (2 * pi) powr (3 / 2))
                                 * sum_list (map (\<lambda>q. q ^ 2) charges)
               in Inr (np_shift (np_shift energy_short energy_long) (- energy_self)))"

section \<open>sysmodule.py: System\<close>

text \<open>
  Arrays are shared by reference: \<open>store\<close> holds the numpy arrays by address, and a
  \<open>SystemState\<close> holds the address of its positions array. \<open>systemStates\<close> is the
  attribute \<open>__systemStates\<close> of class \<open>System\<close> (\<open>_System__systemStates\<close> after
  Python's name mangling); \<open>attr_systemStates\<close> is the attribute \<open>_systemStates\<close>,
  which an object has only once something assigns it.
\<close>

type_synonym ref = nat

datatype system_state = SystemState (positions_ref: ref)

record system =
  store :: "array list"
  systemInfo :: system_info
  systemStates :: "system_state list"
  attr_systemStates :: "system_state list option"

text \<open>
  \<open>System.__init__\<close> calls \<open>SystemInfo(characteristic_length, sigma,
  particle_charges, self)\<close>: four arguments, \<open>periods\<close> is not passed.
\<close>

definition System_init :: "real \<Rightarrow> real \<Rightarrow> real list \<Rightarrow> array \<Rightarrow> error + system" where
  "System_init characteristic_length sig charges positions =
     (case SystemInfo_init characteristic_length sig charges None of
        Inl e \<Rightarrow> Inl e
      | Inr info \<Rightarrow>
          Inr \<lparr>store = [positions], systemInfo = info,
               systemStates = [SystemState 0], attr_systemStates = None\<rparr>)"

definition update_state :: "system \<Rightarrow> system_state \<Rightarrow> system" where
  "update_state sys new_state = sys\<lparr>systemStates := systemStates sys @ [new_state]\<rparr>"

text \<open>\<open>state()\<close> is \<open>self.__systemStates[-1]\<close>: IndexError on an empty list.\<close>

definition System_state :: "system \<Rightarrow> error + system_state" where
  "System_state sys =
     (if systemStates sys = [] then Inl IndexError else Inr (last (systemStates sys)))"

definition System_states :: "system \<Rightarrow> system_state list" where
  "System_states sys = systemStates sys"

definition positions :: "system \<Rightarrow> system_state \<Rightarrow> array" where
  "positions sys st = store sys ! positions_ref st"

section \<open>markov.py: parameters and the random source\<close>

text \<open>
  \<open>markov.py\<close> reaches the state class through the package name (\<open>nbp.SystemState\<close>)
  and calls \<open>state.energy()\<close> and \<open>info()._sigma_lj()\<close> on what it is given. In the
  model of \<open>markov.py\<close> the energy method is the parameter \<open>E\<close>, a float for every
  positions array, and the value of \<open>_sigma_lj()\<close> is the parameter \<open>sigma_lj\<close>
  (class \<open>SystemInfo\<close> of \<open>sysmodule.py\<close> has no method of that name).

  The random numbers are inputs: a draw holds what \<open>np.random.choice\<close>, the
  multivariate normal's \<open>rvs\<close> and \<open>np.random.random\<close> return in one step. What
  the library calls of \<open>Simulator\<close> do on a system without particles is not modelled:
  the statements about \<open>Simulator.act\<close> and \<open>simulate\<close> are about systems with a
  particle.
\<close>

record opt_draw =
  opt_particles :: "nat list"
  opt_rvs :: "vec list"


text \<open>
  \<open>np.random.choice(a, size=k, replace=...)\<close>: numpy's checks of its arguments (an empty
  population with a non-zero size, a sample without replacement larger than the
  population, a negative size), then the sample, which is the input \<open>picked\<close>.
  \<open>choice_outcome\<close> says which samples the call can return.
\<close>

definition np_random_choice :: "nat \<Rightarrow> int \<Rightarrow> bool \<Rightarrow> nat list \<Rightarrow> error + nat list" where
  "np_random_choice a k replace picked =
     (if a = 0 \<and> k \<noteq> 0 then Inl ValueError
      else if \<not> replace \<and> int a < k then Inl ValueError
      else if k < 0 then Inl ValueError
      else Inr picked)"


text \<open>
  \<open>sp.stats.multivariate_normal(mean, cov)\<close> with the covariance \<open>cov\<close> times the
  identity: scipy refuses a covariance that is not positive definite (ValueError for a
  negative one, LinAlgError for a singular one).
\<close>

definition multivariate_normal :: "real \<Rightarrow> error option" where
  "multivariate_normal cov =
     (if cov < 0 then Some ValueError else if cov = 0 then Some LinAlgError else None)"

text \<open>The values \<open>num_particles\<close> can hold: \<open>None\<close> (the default of \<open>_propose\<close>), a float, an int.\<close>

datatype pyval = PyNone | PyFloat real | PyInt int

text \<open>\<open>int(x)\<close> of a float truncates toward zero.\<close>

definition py_int :: "real \<Rightarrow> int" where
  "py_int x = (if 0 \<le> x then \<lfloor>x\<rfloor> else \<lceil>x\<rceil>)"

text \<open>
  \<open>a[idx] = vals\<close> with an index array: row \<open>idx[t]\<close> becomes \<open>vals[t]\<close>, in order, so
  that the last assignment to a repeated index stays.
\<close>

fun assign_rows :: "array \<Rightarrow> nat list \<Rightarrow> vec list \<Rightarrow> array" where
  "assign_rows a (i # idx) (v # vals) = assign_rows (a[i := v]) idx vals"
| "assign_rows a idx vals = a"

definition vec_add :: "vec \<Rightarrow> vec \<Rightarrow> vec" where
  "vec_add v w = map2 (+) v w"

section \<open>markov.py: Optimizer\<close>

text \<open>Lines 52 to 57 of \<open>_propose\<close>: the number of particles to move, or ValueError.\<close>

fun propose_count :: "nat \<Rightarrow> pyval \<Rightarrow> error + int" where
  "propose_count n (PyFloat f) = (if f \<le> 1 then Inr (py_int (real n * f)) else Inl ValueError)"
| "propose_count n (PyInt k) = (if k \<le> int n then Inr k else Inl ValueError)"
| "propose_count n PyNone = Inl ValueError"

text \<open>
  \<open>_propose\<close>: \<open>proposal_positions = positions\<close> binds a second name to the array of
  the current state, so the assignment to \<open>proposal_positions[particles]\<close> writes into
  that array (the store is updated at the address of the current state), and the new
  \<open>SystemState\<close> holds the same address.
\<close>

definition Optimizer_propose :: "(array \<Rightarrow> real) \<Rightarrow> system \<Rightarrow> real \<Rightarrow> pyval \<Rightarrow> opt_draw \<Rightarrow> error + (system \<times> system_state \<times> real)" where
  "Optimizer_propose E sys cov num_particles draw =
     (case System_state sys of
        Inl e \<Rightarrow> Inl e
      | Inr cur \<Rightarrow>
          (case propose_count (length (positions sys cur)) num_particles of
             Inl e \<Rightarrow> Inl e
           | Inr k \<Rightarrow>
               (case np_random_choice (length (positions sys cur)) k False (opt_particles draw) of
                  Inl e \<Rightarrow> Inl e
                | Inr particles \<Rightarrow>
                    (case multivariate_normal cov of
                       Some e \<Rightarrow> Inl e
                     | None \<Rightarrow>
                         let pos = positions sys cur;
                             moved = map2 vec_add (map (\<lambda>i. pos ! i) particles) (opt_rvs draw);
                             proposal_positions = assign_rows pos particles moved;
                             sys' = sys\<lparr>store := (store sys)[positions_ref cur := proposal_positions]\<rparr>;
                             proposal_state = SystemState (positions_ref cur)
                         in Inr (sys', proposal_state, E (positions sys' proposal_state))))))"

definition Optimizer_check :: "real \<Rightarrow> real \<Rightarrow> bool" where
  "Optimizer_check orig_energy proposal_energy = (proposal_energy \<le> orig_energy)"

definition Optimizer_act :: "(array \<Rightarrow> real) \<Rightarrow> system \<Rightarrow> real \<Rightarrow> pyval \<Rightarrow> opt_draw \<Rightarrow> error + (system \<times> system_state \<times> real)" where
  "Optimizer_act E sys cov num_particles draw =
     (case System_state sys of
        Inl e \<Rightarrow> Inl e
      | Inr cur \<Rightarrow>
          let orig_energy = E (positions sys cur)
          in (case Optimizer_propose E sys cov num_particles draw of
                Inl e \<Rightarrow> Inl e
              | Inr (sys', proposal, proposal_energy) \<Rightarrow>
                  if Optimizer_check orig_energy proposal_energy
                  then Inr (sys', proposal, proposal_energy)
                  else (case System_state sys' of
                          Inl e \<Rightarrow> Inl e
                        | Inr st \<Rightarrow> Inr (sys', st, orig_energy))))"

section \<open>markov.py: Simulator\<close>

definition k_B :: real where
  "k_B = 86173303 / 10 ^ 12"

text \<open>
  \<open>_metropolis\<close>: \<open>np.copy\<close> allocates a new array, at a new address of the store. One
  normal distribution is built per selected row, so the covariance is checked when a
  row is selected. The sample drawn around row \<open>indices[t]\<close> is \<open>samples[t]\<close>.
\<close>

definition Simulator_metropolis :: "system \<Rightarrow> nat list \<Rightarrow> real \<Rightarrow> vec list \<Rightarrow> error + (system \<times> system_state)" where
  "Simulator_metropolis sys indices cov samples =
     (if System_states sys = [] then Inl IndexError
      else
        (case (if indices = [] then None else multivariate_normal cov) of
           Some e \<Rightarrow> Inl e
         | None \<Rightarrow>
             let new_positions =
                   assign_rows (positions sys (last (System_states sys))) indices samples
             in Inr (sys\<lparr>store := store sys @ [new_positions]\<rparr>,
                     SystemState (length (store sys)))))"

text \<open>
  \<open>_check\<close>: the division comes first, on Python floats. \<open>u\<close> is the value of
  \<open>np.random.random()\<close>.
\<close>

definition Simulator_check :: "(array \<Rightarrow> real) \<Rightarrow> system \<Rightarrow> system_state \<Rightarrow> real \<Rightarrow> real \<Rightarrow> error + bool" where
  "Simulator_check E sys st temperature u =
     (if k_B * temperature = 0 then Inl ZeroDivisionError
      else
        (case System_state sys of
           Inl e \<Rightarrow> Inl e
         | Inr cur \<Rightarrow>
             let beta = 1 / (k_B * temperature);
                 energy_prev = E (positions sys cur);
                 energy_prop = E (positions sys st);
                 p_acc = min 1 (exp (beta * (energy_prop - energy_prev)))
             in Inr (u \<le> p_acc)))"


section \<open>markov.py: MCMC\<close>

text \<open>\<open>xs[s:]\<close> for an int \<open>s\<close>; a negative \<open>s\<close> counts from the end.\<close>

definition py_slice_from :: "'a list \<Rightarrow> int \<Rightarrow> 'a list" where
  "py_slice_from xs s =
     (if 0 \<le> s then drop (nat s) xs else drop (nat (int (length xs) + s)) xs)"

text \<open>
  The test that ends the loop of \<open>optimize\<close>:
  \<open>len(energies) > no_progress_break and np.all(np.less(np.abs(np.asarray(energies)[-no_progress_break:] - new_energy), d_energy_tol))\<close>.
\<close>

definition no_progress :: "real list \<Rightarrow> real \<Rightarrow> int \<Rightarrow> real \<Rightarrow> bool" where
  "no_progress energies new_energy no_progress_break d_energy_tol =
     (no_progress_break < int (length energies) \<and>
      list_all (\<lambda>e. \<bar>e - new_energy\<bar> < d_energy_tol)
        (py_slice_from energies (- no_progress_break)))"

text \<open>
  The loop of \<open>optimize\<close>, from iteration \<open>i\<close> with \<open>n\<close> iterations left. The draw of
  iteration \<open>i\<close> is \<open>draws i\<close>.
\<close>

fun optimize_loop :: "(array \<Rightarrow> real) \<Rightarrow> real \<Rightarrow> pyval \<Rightarrow> real \<Rightarrow> int \<Rightarrow> (nat \<Rightarrow> opt_draw) \<Rightarrow> nat \<Rightarrow> nat \<Rightarrow> real list \<Rightarrow> system \<Rightarrow> error + (system \<times> real list)" where
  "optimize_loop E cov num_particles d_energy_tol no_progress_break draws i 0 energies sys =
     Inr (sys, energies)"
| "optimize_loop E cov num_particles d_energy_tol no_progress_break draws i (Suc n) energies sys =
     (case Optimizer_act E sys cov num_particles (draws i) of
        Inl e \<Rightarrow> Inl e
      | Inr (sys1, new_state, new_energy) \<Rightarrow>
          if no_progress (energies @ [new_energy]) new_energy no_progress_break d_energy_tol
          then Inr (update_state sys1 new_state, energies @ [new_energy])
          else optimize_loop E cov num_particles d_energy_tol no_progress_break draws (Suc i) n
                 (energies @ [new_energy]) (update_state sys1 new_state))"

text \<open>
  \<open>optimize\<close> returns the system; the model returns the local list \<open>energies\<close> beside
  it. With \<open>drop_intermediate_states\<close> the code assigns the attribute
  \<open>_systemStates\<close> of the system, which is not the attribute \<open>__systemStates\<close> that
  class \<open>System\<close> reads.
\<close>

definition MCMC_optimize :: "(array \<Rightarrow> real) \<Rightarrow> system \<Rightarrow> nat \<Rightarrow> real option \<Rightarrow> real \<Rightarrow> int \<Rightarrow> pyval \<Rightarrow> bool \<Rightarrow> (nat \<Rightarrow> opt_draw) \<Rightarrow> error + (system \<times> real list)" where
  "MCMC_optimize E sys max_steps cov d_energy_tol no_progress_break num_particles
       drop_intermediate_states draws =
     (case optimize_loop E (case cov of None \<Rightarrow> cutoff (systemInfo sys) / 24 | Some c \<Rightarrow> c)
             num_particles d_energy_tol no_progress_break draws 0 max_steps [] sys of
        Inl e \<Rightarrow> Inl e
      | Inr (optimized_system, energies) \<Rightarrow>
          if drop_intermediate_states
          then (case System_state optimized_system of
                  Inl e \<Rightarrow> Inl e
                | Inr st \<Rightarrow> Inr (optimized_system\<lparr>attr_systemStates := Some [st]\<rparr>, energies))
          else Inr (optimized_system, energies))"



section \<open>Example inputs\<close>

text \<open>
  One particle at the origin; an energy with a strict minimum there (the squared
  distance of particle 0 from the origin); a constant energy; a draw that moves
  particle 0 by one unit along x.
\<close>

definition info_one :: system_info where
  "info_one = \<lparr>sigma = 1, cutoff_radius = 2.5, epsilon0 = 1, particle_charges = [1],
               char_length = 1, periods = 1\<rparr>"

definition sys_one :: system where
  "sys_one = \<lparr>store = [[[0, 0, 0]]], systemInfo = info_one,
              systemStates = [SystemState 0], attr_systemStates = None\<rparr>"

definition well_energy :: "array \<Rightarrow> real" where
  "well_energy a = sum_list (map (\<lambda>x. x * x) (a ! 0))"

definition flat_energy :: "array \<Rightarrow> real" where
  "flat_energy a = 0"

definition draw_x :: opt_draw where
  "draw_x = \<lparr>opt_particles = [0], opt_rvs = [[1, 0, 0]]\<rparr>"

text \<open>The same system after runs that moved particle 0 once, twice, six and three times.\<close>

definition sys_moved :: system where
  "sys_moved = sys_one\<lparr>store := [[[1, 0, 0]]]\<rparr>"

definition sys_after_two :: system where
  "sys_after_two = \<lparr>store = [[[2, 0, 0]]], systemInfo = info_one,
       systemStates = [SystemState 0, SystemState 0, SystemState 0],
       attr_systemStates = Some [SystemState 0]\<rparr>"

definition sys_after_six :: system where
  "sys_after_six = \<lparr>store = [[[6, 0, 0]]], systemInfo = info_one,
       systemStates = replicate 7 (SystemState 0), attr_systemStates = None\<rparr>"

definition sys_after_three :: system where
  "sys_after_three = \<lparr>store = [[[3, 0, 0]]], systemInfo = info_one,
       systemStates = replicate 4 (SystemState 0), attr_systemStates = None\<rparr>"

text \<open>
  Two arrays in the store, the current state at address 0 and a candidate at address 1:
  in \<open>sys_down\<close> the candidate has the lower energy, in \<open>sys_up\<close> the higher one.
\<close>

definition sys_down :: system where
  "sys_down = \<lparr>store = [[[1, 0, 0]], [[0, 0, 0]]], systemInfo = info_one,
       systemStates = [SystemState 0], attr_systemStates = None\<rparr>"

definition sys_up :: system where
  "sys_up = \<lparr>store = [[[0, 0, 0]], [[1, 0, 0]]], systemInfo = info_one,
       systemStates = [SystemState 0], attr_systemStates = None\<rparr>"



definition draw_none :: opt_draw where
  "draw_none = \<lparr>opt_particles = [], opt_rvs = []\<rparr>"

section \<open>Construction\<close>

text \<open>
  C2. Constructing a System from a characteristic length, sigma, a charge vector and a
  position array is claimed to succeed with a history of one element. In the code the
  constructor raises TypeError for every input: \<open>System.__init__\<close> does not pass
  \<open>periods\<close> to \<open>SystemInfo\<close>.
\<close>

theorem System_init_raises:
  "System_init characteristic_length sig charges pos = Inl TypeError"
  by (simp add: System_init_def SystemInfo_init_def)

section \<open>Energy\<close>

text \<open>
  C4. The energy is claimed to be a single float whose real-space term runs over the
  pairs with \<open>i \<noteq> j\<close>. For one particle (charge 1, sigma 1, L 1, one periodic image)
  there is no such pair, yet the code returns an array of three numbers, each holding
  the summand of the pair \<open>i = j = 0\<close>.
\<close>

theorem energy_single_particle:
  "energy erfc info_one [[0, 0, 0]] =
     Inr (Array [1 / (8 * pi) * erfc (1 / sqrt 2) - inverse (2 * (2 * pi) powr (3 / 2)),
                 1 / (8 * pi) * erfc (1 / sqrt 2) - inverse (2 * (2 * pi) powr (3 / 2)),
                 1 / (8 * pi) * erfc (1 / sqrt 2) - inverse (2 * (2 * pi) powr (3 / 2))])"
  by (simp add: energy_def info_one_def volume_def short_term_def np_linalg_norm_def)

text \<open>
  Without a periodic shift (\<open>n * L = 0\<close>) the summand of the pair \<open>i = j = 0\<close> divides
  by zero in every coordinate: the energy of any system with a particle is not finite.
\<close>

lemma map2_diff_self: "r \<noteq> [] \<Longrightarrow> (0::real) \<in> set (map2 (-) r r)"
  by (cases r) simp_all

lemma energy_unshifted_nonfinite:
  assumes "particle_charges info \<noteq> []" and "pos \<noteq> []" and "pos ! 0 \<noteq> []"
    and "periods info * char_length info = 0"
  shows "energy erfc info pos = Inl NonFinite"
proof -
  from assms(1) obtain m where m: "length (particle_charges info) = Suc m"
    by (cases "particle_charges info") auto
  have "map (\<lambda>x. x + periods info * char_length info) (map2 (-) (pos ! 0) (pos ! 0))
          = map2 (-) (pos ! 0) (pos ! 0)"
    using assms(4) by simp
  with map2_diff_self [OF assms(3)]
  have zero: "0 \<in> set (map (\<lambda>x. x + periods info * char_length info)
                         (map2 (-) (pos ! 0) (pos ! 0)))"
    by (simp only:)
  have first: "short_term erfc info pos 0 0 = Inl NonFinite"
    unfolding short_term_def Let_def using assms(2) zero by simp
  have "List.product [0..<Suc m] [0..<Suc m] = (0, 0) # tl (List.product [0..<Suc m] [0..<Suc m])"
    by (simp add: upt_conv_Cons del: upt_Suc)
  then obtain rest where "List.product [0..<Suc m] [0..<Suc m] = (0, 0) # rest" ..
  with first m show ?thesis
    by (simp add: energy_def Let_def)
qed

section \<open>Optimizer: the proposal writes into the current state\<close>

text \<open>
  C6. The proposal step is claimed to return a freshly allocated array and to leave the
  positions of the current configuration unchanged. \<open>Simulator._metropolis\<close> copies,
  \<open>Optimizer._propose\<close> does not: for one particle at the origin and a draw that moves
  it by (1, 0, 0), the proposal state holds the address of the current state's array
  (address 0), and the current state's positions are (1, 0, 0) afterwards.
\<close>

theorem Optimizer_propose_aliases_current:
  "Optimizer_propose well_energy sys_one 1 (PyInt 1) draw_x = Inr (sys_moved, SystemState 0, 1)
   \<and> System_state sys_one = Inr (SystemState 0)
   \<and> positions sys_one (SystemState 0) = [[0, 0, 0]]
   \<and> positions sys_moved (SystemState 0) = [[1, 0, 0]]"
  by (simp add: Optimizer_propose_def System_state_def sys_one_def sys_moved_def draw_x_def
      np_random_choice_def multivariate_normal_def positions_def vec_add_def well_energy_def)

text \<open>For every input the proposal state holds the array of the current state.\<close>

lemma Optimizer_propose_same_array:
  assumes "Optimizer_propose E sys cov num_particles draw = Inr (sys', proposal, e)"
    and "System_state sys = Inr cur"
  shows "positions_ref proposal = positions_ref cur \<and> systemStates sys' = systemStates sys"
  using assms
  by (auto simp: Optimizer_propose_def Let_def split: sum.splits option.splits)

text \<open>
  C5. \<open>Optimizer.act\<close> is claimed to return a state whose energy is not above the
  energy before the step. With the energy minimal at the origin and the particle there,
  the move by (1, 0, 0) is rejected and \<open>act\<close> returns the current state with the old
  energy 0; its positions were overwritten by the proposal, so the energy of the state
  returned is 1.
\<close>

theorem Optimizer_act_rejected_state_moved:
  "Optimizer_act well_energy sys_one 1 (PyInt 1) draw_x = Inr (sys_moved, SystemState 0, 0)
   \<and> well_energy (positions sys_one (SystemState 0)) = 0
   \<and> well_energy (positions sys_moved (SystemState 0)) = 1"
  by (simp add: Optimizer_act_def Optimizer_check_def Optimizer_propose_def System_state_def
      sys_one_def sys_moved_def draw_x_def np_random_choice_def multivariate_normal_def positions_def vec_add_def
      well_energy_def)

text \<open>What does hold: the energy that \<open>act\<close> reports is never above the energy before the step.\<close>

lemma Optimizer_act_reported_energy:
  assumes "Optimizer_act E sys cov num_particles draw = Inr (sys', st, e)"
    and "System_state sys = Inr cur"
  shows "e \<le> E (positions sys cur)"
  using assms
  by (auto simp: Optimizer_act_def Optimizer_check_def Let_def split: sum.splits if_splits)

text \<open>\<open>_metropolis\<close> allocates: the arrays already in the store stay as they are.\<close>

lemma Simulator_metropolis_fresh:
  assumes "Simulator_metropolis sys indices cov samples = Inr (sys', st)"
  shows "positions_ref st = length (store sys) \<and> take (length (store sys)) (store sys') = store sys"
  using assms
  by (auto simp: Simulator_metropolis_def Let_def split: if_splits option.splits)

section \<open>optimize: history and plateau\<close>

text \<open>
  C3. After \<open>optimize\<close> with \<open>drop_intermediate_states\<close> the history is claimed to
  have length 1. Two steps on the one-particle system leave a history of three states
  (and an energy list of two entries): the assignment went to the attribute
  \<open>_systemStates\<close>, which \<open>states()\<close> does not read.
\<close>

theorem optimize_drop_keeps_history:
  "MCMC_optimize well_energy sys_one 2 None (1 / 10 ^ 6) 250 (PyInt 1) True (\<lambda>i. draw_x)
     = Inr (sys_after_two, [0, 1])
   \<and> length (System_states sys_after_two) = 3"
  by (simp add: MCMC_optimize_def cutoff_def info_one_def numeral_2_eq_2 Optimizer_act_def Optimizer_check_def
      Optimizer_propose_def System_state_def System_states_def sys_one_def sys_after_two_def
      draw_x_def np_random_choice_def multivariate_normal_def positions_def vec_add_def well_energy_def
      update_state_def no_progress_def)

text \<open>
  For every run, with or without \<open>drop_intermediate_states\<close>: the history grows by one
  state per executed step.
\<close>

lemma Optimizer_act_states:
  assumes "Optimizer_act E sys cov num_particles draw = Inr (sys', st, e)"
  shows "systemStates sys' = systemStates sys"
  using assms
  by (auto simp: Optimizer_act_def Optimizer_propose_def Let_def
      split: sum.splits option.splits if_splits)

lemma optimize_loop_history:
  "optimize_loop E cov np tol w draws i n acc sys = Inr (sys', es) \<Longrightarrow>
     length (systemStates sys') + length acc = length (systemStates sys) + length es"
proof (induction n arbitrary: i acc sys)
  case 0
  then show ?case by simp
next
  case (Suc n)
  from Suc.prems obtain sys1 st e where
    act: "Optimizer_act E sys cov np (draws i) = Inr (sys1, st, e)"
    by (auto split: sum.splits)
  from Optimizer_act_states [OF act] have same: "systemStates sys1 = systemStates sys" .
  show ?case
  proof (cases "no_progress (acc @ [e]) e w tol")
    case True
    with Suc.prems act same show ?thesis by (auto simp: update_state_def)
  next
    case False
    with Suc.prems act have
      "optimize_loop E cov np tol w draws (Suc i) n (acc @ [e]) (update_state sys1 st) = Inr (sys', es)"
      by simp
    from Suc.IH [OF this] same show ?thesis by (simp add: update_state_def)
  qed
qed

lemma optimize_history_length:
  assumes "MCMC_optimize E sys max_steps cov tol w np dr draws = Inr (sys', es)"
  shows "length (System_states sys') = length (System_states sys) + length es"
proof -
  from assms obtain sys0 where
    loop: "optimize_loop E (case cov of None \<Rightarrow> cutoff (systemInfo sys) / 24 | Some c \<Rightarrow> c)
             np tol w draws 0 max_steps [] sys = Inr (sys0, es)"
    and same: "systemStates sys' = systemStates sys0"
    by (auto simp: MCMC_optimize_def split: sum.splits if_splits)
  from optimize_loop_history [OF loop] same show ?thesis
    by (simp add: System_states_def)
qed

lemma optimize_loop_trace:
  "optimize_loop E cov np tol w draws i n acc sys = Inr (sys', es) \<Longrightarrow>
     (\<exists>suf. es = acc @ suf \<and> length suf \<le> n) \<and>
     (\<forall>m. length acc < m \<and> m < length es \<longrightarrow> \<not> no_progress (take m es) (es ! (m - 1)) w tol) \<and>
     (length es < length acc + n \<longrightarrow> no_progress es (last es) w tol)"
proof (induction n arbitrary: i acc sys)
  case 0
  then show ?case by auto
next
  case (Suc n)
  from Suc.prems obtain sys1 st e where
    act: "Optimizer_act E sys cov np (draws i) = Inr (sys1, st, e)"
    by (auto split: sum.splits)
  show ?case
  proof (cases "no_progress (acc @ [e]) e w tol")
    case True
    with Suc.prems act have es: "es = acc @ [e]" by simp
    with True show ?thesis by auto
  next
    case False
    with Suc.prems act have rec:
      "optimize_loop E cov np tol w draws (Suc i) n (acc @ [e]) (update_state sys1 st) = Inr (sys', es)"
      by simp
    from Suc.IH [OF rec] obtain suf where
      suf: "es = (acc @ [e]) @ suf" "length suf \<le> n"
      and early: "\<forall>m. length (acc @ [e]) < m \<and> m < length es \<longrightarrow>
                    \<not> no_progress (take m es) (es ! (m - 1)) w tol"
      and stop: "length es < length (acc @ [e]) + n \<longrightarrow> no_progress es (last es) w tol"
      by blast
    have a: "\<exists>suf'. es = acc @ suf' \<and> length suf' \<le> Suc n"
      using suf by (intro exI [of _ "e # suf"]) simp
    have b: "\<not> no_progress (take m es) (es ! (m - 1)) w tol"
      if m: "length acc < m" "m < length es" for m
    proof (cases "m = Suc (length acc)")
      case True
      then have "take m es = acc @ [e]" "es ! (m - 1) = e"
        using suf by (simp_all add: nth_append)
      with False show ?thesis by simp
    next
      case False
      with m have "length (acc @ [e]) < m" by simp
      with early m show ?thesis by blast
    qed
    have c: "length es < length acc + Suc n \<longrightarrow> no_progress es (last es) w tol"
      using stop by simp
    from a b c show ?thesis by blast
  qed
qed

lemma no_progress_length: "no_progress es e w tol \<Longrightarrow> w < int (length es)"
  by (simp add: no_progress_def)

text \<open>
  For a window \<open>w > 0\<close> the test reads: more than \<open>w\<close> entries, and each of the last
  \<open>w\<close> within the tolerance of the newest energy.
\<close>

lemma no_progress_window:
  "0 < w \<Longrightarrow> no_progress es e w tol \<longleftrightarrow>
     nat w < length es \<and> (\<forall>x \<in> set (drop (length es - nat w) es). \<bar>x - e\<bar> < tol)"
  by (auto simp: no_progress_def py_slice_from_def list_all_iff nat_diff_distrib'
      dest: in_set_dropD)

text \<open>
  The claim C7 as the spec states it: once the energy list has at least
  \<open>plateau_window\<close> entries, the loop stops when all of them in the trailing window are
  within the tolerance of the newest. With a constant energy and a window of 5 the list
  has 5 entries after step 5, all equal, and the loop goes on: the run has 6 steps.
\<close>

theorem optimize_window_five_runs_six_steps:
  "MCMC_optimize flat_energy sys_one 10 None (1 / 10 ^ 6) 5 (PyInt 1) False (\<lambda>i. draw_x)
     = Inr (sys_after_six, [0, 0, 0, 0, 0, 0])
   \<and> list_all (\<lambda>e. \<bar>e - 0\<bar> < 1 / 10 ^ 6) (take 5 [0, 0, 0, 0, 0, 0 :: real])
   \<and> \<not> length [0, 0, 0, 0, 0, 0 :: real] \<le> 5"
  by (simp add: MCMC_optimize_def cutoff_def info_one_def eval_nat_numeral Optimizer_act_def Optimizer_check_def
      Optimizer_propose_def System_state_def sys_one_def sys_after_six_def draw_x_def
      np_random_choice_def multivariate_normal_def positions_def vec_add_def flat_energy_def update_state_def
      no_progress_def py_slice_from_def)

text \<open>
  C7, amended. The loop of \<open>optimize\<close> stops early exactly at the first step after
  which the energy list has more than \<open>plateau_window\<close> entries and every energy in its
  trailing window differs from the newest by less than the tolerance (\<open>no_progress\<close>):
  the test fails after every earlier step, and holds at the end of a run shorter than
  \<open>max_steps\<close>. So a run has at least \<open>min(max_steps, plateau_window + 1)\<close> steps.
\<close>

theorem optimize_stops_at_first_plateau:
  assumes "MCMC_optimize E sys max_steps cov tol w np dr draws = Inr (sys', es)"
  shows "length es \<le> max_steps \<and>
     (\<forall>m. 0 < m \<and> m < length es \<longrightarrow> \<not> no_progress (take m es) (es ! (m - 1)) w tol) \<and>
     (length es < max_steps \<longrightarrow> no_progress es (last es) w tol) \<and>
     min (int max_steps) (w + 1) \<le> int (length es)"
proof -
  from assms obtain sys0 where
    loop: "optimize_loop E (case cov of None \<Rightarrow> cutoff (systemInfo sys) / 24 | Some c \<Rightarrow> c)
             np tol w draws 0 max_steps [] sys = Inr (sys0, es)"
    by (auto simp: MCMC_optimize_def split: sum.splits if_splits)
  from optimize_loop_trace [OF loop] have
    a: "length es \<le> max_steps"
    and b: "\<forall>m. 0 < m \<and> m < length es \<longrightarrow> \<not> no_progress (take m es) (es ! (m - 1)) w tol"
    and c: "length es < max_steps \<longrightarrow> no_progress es (last es) w tol"
    by auto
  have d: "min (int max_steps) (w + 1) \<le> int (length es)"
  proof (cases "length es < max_steps")
    case True
    with c have "w < int (length es)" by (auto dest: no_progress_length)
    then show ?thesis by simp
  next
    case False
    with a show ?thesis by simp
  qed
  from a b c d show ?thesis by blast
qed

theorem optimize_stops_at_first_plateau_witness:
  "MCMC_optimize flat_energy sys_one 5 None (1 / 10 ^ 6) 2 (PyInt 1) False (\<lambda>i. draw_x)
     = Inr (sys_after_three, [0, 0, 0])
   \<and> length [0, 0, 0 :: real] \<le> 5
   \<and> \<not> no_progress (take 2 [0, 0, 0]) ([0, 0, 0 :: real] ! (2 - 1)) 2 (1 / 10 ^ 6)
   \<and> no_progress [0, 0, 0] (last [0, 0, 0 :: real]) 2 (1 / 10 ^ 6)
   \<and> min (int 5) (2 + 1) \<le> int (length [0, 0, 0 :: real])"
proof -
  have run: "MCMC_optimize flat_energy sys_one 5 None (1 / 10 ^ 6) 2 (PyInt 1) False (\<lambda>i. draw_x)
     = Inr (sys_after_three, [0, 0, 0])"
    by (simp add: MCMC_optimize_def cutoff_def info_one_def eval_nat_numeral Optimizer_act_def Optimizer_check_def
        Optimizer_propose_def System_state_def sys_one_def sys_after_three_def draw_x_def
        np_random_choice_def multivariate_normal_def positions_def vec_add_def flat_energy_def update_state_def
        no_progress_def py_slice_from_def)
  note stops = optimize_stops_at_first_plateau [OF run]
  from stops have "0 < (2::nat) \<and> 2 < length [0, 0, 0 :: real] \<longrightarrow>
      \<not> no_progress (take 2 [0, 0, 0]) ([0, 0, 0 :: real] ! (2 - 1)) 2 (1 / 10 ^ 6)"
    by blast
  then have early: "\<not> no_progress (take 2 [0, 0, 0]) ([0, 0, 0 :: real] ! (2 - 1)) 2 (1 / 10 ^ 6)"
    by simp
  from stops have "length [0, 0, 0 :: real] < 5 \<longrightarrow>
      no_progress [0, 0, 0] (last [0, 0, 0 :: real]) 2 (1 / 10 ^ 6)"
    by blast
  then have plateau: "no_progress [0, 0, 0] (last [0, 0, 0 :: real]) 2 (1 / 10 ^ 6)"
    by simp
  from stops have least: "min (int 5) (2 + 1) \<le> int (length [0, 0, 0 :: real])"
    by blast
  from run early plateau least show ?thesis by simp
qed

section \<open>The subset size of a proposal\<close>

text \<open>
  The claim C9 as the spec states it: a fraction outside (0, 1] raises. The fraction 0.0
  is outside, and \<open>_propose\<close> returns: the count is 0, no particle is drawn or moved.
\<close>

theorem Optimizer_propose_fraction_zero:
  "Optimizer_propose well_energy sys_one 1 (PyFloat 0) draw_none = Inr (sys_one, SystemState 0, 0)
   \<and> \<not> (0 < (0::real) \<and> (0::real) \<le> 1)"
  by (simp add: Optimizer_propose_def System_state_def sys_one_def draw_none_def
      np_random_choice_def multivariate_normal_def positions_def well_energy_def py_int_def)

lemma py_int_fraction_le:
  assumes "f \<le> 1"
  shows "py_int (real n * f) \<le> int n"
proof -
  have "real n * f \<le> real n" using assms by (simp add: mult_left_le)
  then show ?thesis by (auto simp: py_int_def floor_le_iff ceiling_le_iff)
qed

text \<open>
  C9, amended. On a system with \<open>n\<close> particles and with a positive \<open>cov\<close>,
  \<open>_propose\<close> returns when
  \<open>num_particles\<close> is a float \<open>f \<le> 1\<close> whose count \<open>int(n * f)\<close> (truncated toward
  zero) is not negative, or an int \<open>k\<close> with \<open>0 \<le> k \<le> n\<close>; in every other case
  (a float above 1, an int above \<open>n\<close>, the default \<open>None\<close>, a negative count) it raises
  ValueError. There is no lower bound on the fraction other than the sign of the count.
\<close>

theorem Optimizer_propose_raises_iff:
  assumes "System_state sys = Inr cur" and "n = length (positions sys cur)" and "0 < cov"
  shows "(if (case spec of PyFloat f \<Rightarrow> f \<le> 1 \<and> 0 \<le> py_int (real n * f)
                         | PyInt k \<Rightarrow> 0 \<le> k \<and> k \<le> int n
                         | PyNone \<Rightarrow> False)
          then \<exists>r. Optimizer_propose E sys cov spec draw = Inr r
          else Optimizer_propose E sys cov spec draw = Inl ValueError)"
proof (cases spec)
  case PyNone
  with assms show ?thesis by (simp add: Optimizer_propose_def)
next
  case (PyFloat f)
  with assms py_int_fraction_le [of f n] show ?thesis
    by (auto simp: Optimizer_propose_def np_random_choice_def multivariate_normal_def Let_def)
next
  case (PyInt k)
  with assms show ?thesis
    by (auto simp: Optimizer_propose_def np_random_choice_def multivariate_normal_def Let_def)
qed

theorem Optimizer_propose_raises_iff_witness:
  "System_state sys_one = Inr (SystemState 0)
   \<and> 1 = length (positions sys_one (SystemState 0))
   \<and> Optimizer_propose well_energy sys_one 1 (PyFloat 2) draw_x = Inl ValueError
   \<and> Optimizer_propose well_energy sys_one 1 PyNone draw_x = Inl ValueError
   \<and> (\<exists>r. Optimizer_propose well_energy sys_one 1 (PyFloat (1 / 2)) draw_none = Inr r)"
proof -
  have a: "System_state sys_one = Inr (SystemState 0)"
    by (simp add: System_state_def sys_one_def)
  have b: "1 = length (positions sys_one (SystemState 0))"
    by (simp add: positions_def sys_one_def)
  have pos: "0 < (1::real)" by simp
  from Optimizer_propose_raises_iff [OF a b pos, of "PyFloat 2" well_energy draw_x]
  have c: "Optimizer_propose well_energy sys_one 1 (PyFloat 2) draw_x = Inl ValueError"
    by simp
  from Optimizer_propose_raises_iff [OF a b pos, of PyNone well_energy draw_x]
  have d: "Optimizer_propose well_energy sys_one 1 PyNone draw_x = Inl ValueError"
    by simp
  from Optimizer_propose_raises_iff [OF a b pos, of "PyFloat (1 / 2)" well_energy draw_none]
  have e: "\<exists>r. Optimizer_propose well_energy sys_one 1 (PyFloat (1 / 2)) draw_none = Inr r"
    by (simp add: py_int_def)
  from a b c d e show ?thesis by blast
qed

section \<open>Simulator\<close>

lemma exp_neg_lt_half:
  assumes "2 \<le> x"
  shows "exp (- x) < 1 / (2::real)"
proof -
  have "1 + x \<le> exp x" by (rule exp_ge_add_one_self)
  with assms have "2 < exp x" by linarith
  then have "inverse (exp x) < inverse 2" by (simp add: field_simps)
  then show ?thesis by (simp add: exp_minus)
qed

text \<open>
  C1. The acceptance probability is claimed to be \<open>min(1, exp(beta * (current -
  candidate)))\<close>, so that a decrease of the energy has probability 1. The code takes
  \<open>exp(beta * (energy_prop - energy_prev))\<close>, candidate minus current. At temperature
  300 a candidate that lowers the energy from 1 to 0 is rejected on the draw \<open>u = 1/2\<close>
  (its probability is \<open>exp(- 1 / (300 k_B))\<close>), and a candidate that raises it from 0
  to 1 is accepted on \<open>u = 99/100\<close>. The comparison itself is \<open>u \<le> p_acc\<close>, as claimed.
\<close>

theorem Simulator_check_rejects_decrease:
  "Simulator_check well_energy sys_down (SystemState 1) 300 (1 / 2) = Inr False
   \<and> Simulator_check well_energy sys_up (SystemState 1) 300 (99 / 100) = Inr True"
proof -
  have a: "exp (- (1 / (k_B * 300))) < 1 / 2"
    by (rule exp_neg_lt_half) (simp add: k_B_def)
  have b: "1 \<le> exp (1 / (k_B * 300))"
    by (simp add: k_B_def)
  from a b show ?thesis
    by (simp add: Simulator_check_def System_state_def sys_down_def sys_up_def positions_def
        well_energy_def k_B_def min_def)
qed

text \<open>
  For every positive temperature: the decision of \<open>_check\<close>, and the probability of a
  candidate that lowers the energy, which is below 1.
\<close>

lemma Simulator_check_probability:
  assumes "0 < temperature" and "System_state sys = Inr cur"
  shows "Simulator_check E sys st temperature u =
           Inr (u \<le> min 1 (exp (1 / (k_B * temperature)
                                  * (E (positions sys st) - E (positions sys cur)))))"
proof -
  have "0 < k_B" by (simp add: k_B_def)
  with assms(1) have "k_B * temperature \<noteq> 0" by simp
  with assms(2) show ?thesis by (simp add: Simulator_check_def Let_def)
qed

lemma Simulator_check_decrease_below_one:
  assumes "0 < temperature" and "e_prop < e_prev"
  shows "min 1 (exp (1 / (k_B * temperature) * (e_prop - e_prev))) < 1"
proof -
  have "0 < k_B" by (simp add: k_B_def)
  with assms have "0 < 1 / (k_B * temperature)" and "e_prop - e_prev < 0"
    by simp_all
  then have "1 / (k_B * temperature) * (e_prop - e_prev) < 0"
    by (rule mult_pos_neg)
  then show ?thesis by simp
qed




end
